theory Spec2Isabelle
  imports Complex_Main "HOL-Library.Sublist"
begin

section \<open>Data model\<close>

text \<open>
  The component under study is \<open>App\<close> of the interview UI.  JavaScript strings are
  modelled as \<open>string\<close>, one \<open>char\<close> per code unit below 256.  Two literals of
  the source contain the character U+2014, which lies outside that range; it is taken
  from the host record (\<open>EM_DASH\<close>) wherever the source writes it.
\<close>

datatype role = System | Assistant | User

record message =
  m_id :: string
  m_role :: role
  m_text :: string

text \<open>
  A parsed JSON value, as \<open>res.json()\<close> delivers it.  Numbers are doubles of the host
  and stay abstract (\<open>'n\<close>); an object is the list of its own properties in order.
\<close>

datatype 'n json =
    JNull
  | JBool bool
  | JNumber 'n
  | JString string
  | JArray "'n json list"
  | JObject "(string \<times> 'n json) list"

text \<open>
  The body handed to \<open>fetch\<close> is \<open>JSON.stringify({model, prompt, max_tokens,
  temperature})\<close>; the model keeps the four fields apart instead of their serialization.
\<close>

record request_body =
  model :: string
  prompt :: string
  max_tokens :: nat
  temperature :: rat

record request =
  url :: string
  http_method :: string
  content_type :: string
  authorization :: string
  body :: request_body

text \<open>
  A response: its status, and what \<open>res.text()\<close> and \<open>res.json()\<close> settle to
  (\<open>Inl\<close> is the message of a rejection, for instance of a syntax error in the body).
\<close>

record 'n response =
  status :: nat
  res_text :: "string + string"
  res_json :: "string + 'n json"

datatype 'n fetch_result = Rejected string | Resolved "'n response"

text \<open>
  Effects on the host, in the order they happen: a network request, and an utterance
  given to speech synthesis (the flag tells whether a continuation that re-arms speech
  recognition was passed as \<open>onEnd\<close>).
\<close>

datatype event = Fetch request | Speak string bool

text \<open>
  Everything the code reads from its surroundings: the places where configuration may be
  injected, the network (whose answer may depend on all that happened before), the
  values \<open>Math.random().toString(36).slice(2, 9)\<close> yields at each draw, and the
  rendering of numbers, and the message of the TypeError the engine throws when a value
  has no primitive form.  The host is a browser: \<open>fetch\<close> and \<open>speechSynthesis\<close>
  exist, and \<open>speak\<close> does not throw.
\<close>

record 'n host =
  import_meta_env :: "(string \<rightharpoonup> string) option"
  window_ENV :: "(string \<rightharpoonup> string) option"
  window_env :: "(string \<rightharpoonup> string) option"
  window_props :: "string \<rightharpoonup> string"
  fetch :: "event list \<Rightarrow> request \<Rightarrow> 'n fetch_result"
  random36 :: "nat \<Rightarrow> string"
  num_toString :: "'n \<Rightarrow> string"
  num_isFinite :: "'n \<Rightarrow> bool"
  TypeError_message :: string
  EM_DASH :: string

text \<open>
  The state of the component (the \<open>useState\<close> cells), together with the trace of host
  effects and the number of identifiers drawn so far.
\<close>

record world =
  messages :: "message list"
  candidateProfile :: string
  userInput :: string
  isThinking :: bool
  devApiKey :: string
  diagnostics :: "string option"
  lastTestResponse :: "string option"
  trace :: "event list"
  draws :: nat

text \<open>
  A handler is a closure of one render: it reads the state values of that render, while
  its writes (\<open>setMessages\<close> with an updater, and the other setters) go to the live
  state.  These are the values a closure captures.
\<close>

record closure =
  c_messages :: "message list"
  c_candidateProfile :: string
  c_userInput :: string
  c_devApiKey :: string

definition render :: "world \<Rightarrow> closure" where
  "render w = \<lparr>c_messages = messages w, c_candidateProfile = candidateProfile w,
     c_userInput = userInput w, c_devApiKey = devApiKey w\<rparr>"

datatype js_error = Error string

text \<open>\<open>err.message\<close>\<close>

fun message_of :: "js_error \<Rightarrow> string" where
  "message_of (Error m) = m"

section \<open>Strings\<close>

definition is_ws :: "char \<Rightarrow> bool" where
  "is_ws c = (of_char c \<in> {9, 10, 11, 12, 13, 32, 160 :: nat})"

definition trim :: "string \<Rightarrow> string" where
  "trim s = rev (dropWhile is_ws (rev (dropWhile is_ws s)))"

fun join :: "string \<Rightarrow> string list \<Rightarrow> string" where
  "join sep [] = []"
| "join sep [x] = x"
| "join sep (x # y # ys) = x @ sep @ join sep (y # ys)"

text \<open>The decimal digits of a non-negative integer, as \<open>`${res.status}`\<close> renders them.\<close>

fun show_nat :: "nat \<Rightarrow> string" where
  "show_nat n = (if n < 10 then [''0123456789'' ! n]
     else show_nat (n div 10) @ [''0123456789'' ! (n mod 10)])"

declare show_nat.simps [simp del]

fun toUpperCase :: "role \<Rightarrow> string" where
  "toUpperCase System = ''SYSTEM''"
| "toUpperCase Assistant = ''ASSISTANT''"
| "toUpperCase User = ''USER''"

section \<open>JSON values as JavaScript sees them\<close>

definition hex_digit :: "nat \<Rightarrow> char" where
  "hex_digit d = ''0123456789abcdef'' ! d"

definition quote_char :: "char \<Rightarrow> string" where
  "quote_char c =
     (let n = (of_char c :: nat) in
      if n = 8 then [CHR 0x5C, CHR ''b'']
      else if n = 9 then [CHR 0x5C, CHR ''t'']
      else if n = 10 then [CHR 0x5C, CHR ''n'']
      else if n = 12 then [CHR 0x5C, CHR ''f'']
      else if n = 13 then [CHR 0x5C, CHR ''r'']
      else if n = 34 then [CHR 0x5C, CHR 0x22]
      else if n = 92 then [CHR 0x5C, CHR 0x5C]
      else if n < 32 then [CHR 0x5C, CHR ''u'', CHR ''0'', CHR ''0'',
                           hex_digit (n div 16), hex_digit (n mod 16)]
      else [c])"

definition quote :: "string \<Rightarrow> string" where
  "quote s = [CHR 0x22] @ concat (map quote_char s) @ [CHR 0x22]"

text \<open>\<open>JSON.stringify\<close> of a parsed value, without indentation.\<close>

fun JSON_stringify :: "'n host \<Rightarrow> 'n json \<Rightarrow> string" where
  "JSON_stringify h JNull = ''null''"
| "JSON_stringify h (JBool b) = (if b then ''true'' else ''false'')"
| "JSON_stringify h (JNumber n) = (if num_isFinite h n then num_toString h n else ''null'')"
| "JSON_stringify h (JString s) = quote s"
| "JSON_stringify h (JArray xs) = ''['' @ join '','' (map (JSON_stringify h) xs) @ '']''"
| "JSON_stringify h (JObject kvs) =
     ''{'' @ join '','' (map (\<lambda>(k, v). quote k @ '':'' @ JSON_stringify h v) kvs) @ ''}''"

text \<open>
  \<open>String(v)\<close>, which may throw.  An object is converted by its \<open>toString\<close>: a
  parsed object without an own property of that name inherits the one that answers
  \<open>[object Object]\<close>; with such a property (its value is data, never a function) no
  method yields a primitive and a TypeError is thrown.  An array joins the conversions
  of its elements with commas, \<open>null\<close> elements empty, and throws where the first of
  them throws.
\<close>

fun collect :: "(js_error + string) list \<Rightarrow> js_error + string list" where
  "collect [] = Inr []"
| "collect (Inl e # rs) = Inl e"
| "collect (Inr x # rs) = (case collect rs of Inl e \<Rightarrow> Inl e | Inr xs \<Rightarrow> Inr (x # xs))"

fun String :: "'n host \<Rightarrow> 'n json \<Rightarrow> js_error + string" where
  "String h JNull = Inr ''null''"
| "String h (JBool b) = Inr (if b then ''true'' else ''false'')"
| "String h (JNumber n) = Inr (num_toString h n)"
| "String h (JString s) = Inr s"
| "String h (JArray xs) =
     (case collect (map (\<lambda>x. if x = JNull then Inr [] else String h x) xs) of
        Inl e \<Rightarrow> Inl e
      | Inr ss \<Rightarrow> Inr (join '','' ss))"
| "String h (JObject kvs) =
     (if map_of kvs ''toString'' \<noteq> None then Inl (Error (TypeError_message h))
      else Inr ''[object Object]'')"


text \<open>
  Optional chaining.  \<open>None\<close> is \<open>undefined\<close>.  \<open>v?.k\<close> for the keys the code uses
  (\<open>choices\<close>, \<open>text\<close>, \<open>output\<close>): only an object can have them.  \<open>v?.[0]\<close>: the
  first element of an array, the first character of a string, the property \<open>0\<close> of an
  object.
\<close>

fun opt_prop :: "string \<Rightarrow> 'n json option \<Rightarrow> 'n json option" where
  "opt_prop k (Some (JObject kvs)) = map_of kvs k"
| "opt_prop k _ = None"

fun opt_index0 :: "'n json option \<Rightarrow> 'n json option" where
  "opt_index0 (Some (JArray xs)) = (case xs of [] \<Rightarrow> None | x # _ \<Rightarrow> Some x)"
| "opt_index0 (Some (JString s)) = (case s of [] \<Rightarrow> None | c # _ \<Rightarrow> Some (JString [c]))"
| "opt_index0 (Some (JObject kvs)) = map_of kvs ''0''"
| "opt_index0 _ = None"

text \<open>\<open>a ?? b\<close>: \<open>b\<close> when \<open>a\<close> is \<open>undefined\<close> or \<open>null\<close>.\<close>

fun nullish_or :: "'n json option \<Rightarrow> 'n json \<Rightarrow> 'n json" where
  "nullish_or None b = b"
| "nullish_or (Some JNull) b = b"
| "nullish_or (Some v) b = v"

text \<open>
  The last two lines of \<open>callGroq\<close>: \<open>text_of\<close> is the constant
  \<open>text = data?.choices?.[0]?.text ?? data?.output ?? JSON.stringify(data)\<close>, and
  \<open>completion_text\<close> is \<open>String(text)\<close>, a string or the error thrown.
\<close>

definition first_choice_text :: "'n json \<Rightarrow> 'n json option" where
  "first_choice_text data = opt_prop ''text'' (opt_index0 (opt_prop ''choices'' (Some data)))"

definition output_field :: "'n json \<Rightarrow> 'n json option" where
  "output_field data = opt_prop ''output'' (Some data)"

definition text_of :: "'n host \<Rightarrow> 'n json \<Rightarrow> 'n json" where
  "text_of h data =
     nullish_or (first_choice_text data)
       (nullish_or (output_field data) (JString (JSON_stringify h data)))"

definition completion_text :: "'n host \<Rightarrow> 'n json \<Rightarrow> js_error + string" where
  "completion_text h data = String h (text_of h data)"

section \<open>Configuration\<close>

definition MODEL :: string where
  "MODEL = ''openai/gpt-oss-120b''"

definition DEFAULT_GROQ_API_URL :: string where
  "DEFAULT_GROQ_API_URL = ''https://api.groq.ai/v1/engines/gpt-oss-120b/completions''"

definition readImportMetaEnvSafely :: "'n host \<Rightarrow> (string \<rightharpoonup> string) option" where
  "readImportMetaEnvSafely h = import_meta_env h"

definition getRuntimeEnv :: "'n host \<Rightarrow> (string \<rightharpoonup> string)" where
  "getRuntimeEnv h =
     (case readImportMetaEnvSafely h of
        Some metaEnv \<Rightarrow> metaEnv
      | None \<Rightarrow>
          (case window_ENV h of
             Some e \<Rightarrow> e
           | None \<Rightarrow> (case window_env h of Some e \<Rightarrow> e | None \<Rightarrow> window_props h)))"

text \<open>\<open>v || d\<close> for a string that may be missing: \<open>d\<close> when it is missing or empty.\<close>

fun or_default :: "string option \<Rightarrow> string \<Rightarrow> string" where
  "or_default None d = d"
| "or_default (Some v) d = (if v = [] then d else v)"

definition GROQ_API_URL :: "'n host \<Rightarrow> string" where
  "GROQ_API_URL h = or_default (getRuntimeEnv h ''VITE_GROQ_API_URL'') DEFAULT_GROQ_API_URL"

definition STATIC_API_KEY :: "'n host \<Rightarrow> string" where
  "STATIC_API_KEY h = or_default (getRuntimeEnv h ''VITE_GROQ_API_KEY'') []"

definition effectiveApiKey :: "'n host \<Rightarrow> closure \<Rightarrow> string" where
  "effectiveApiKey h c = (if STATIC_API_KEY h \<noteq> [] then STATIC_API_KEY h else c_devApiKey c)"

section \<open>The completion client\<close>

definition MISSING_KEY :: string where
  "MISSING_KEY = ''Missing GROQ API key. Set VITE_GROQ_API_KEY at build time or paste a key in Dev API Key.''"

definition ok :: "'n response \<Rightarrow> bool" where
  "ok res = (200 \<le> status res \<and> status res \<le> 299)"

definition mk_request :: "'n host \<Rightarrow> closure \<Rightarrow> string \<Rightarrow> rat \<Rightarrow> nat \<Rightarrow> request" where
  "mk_request h c p t mt =
     \<lparr>url = GROQ_API_URL h, http_method = ''POST'', content_type = ''application/json'',
      authorization = ''Bearer '' @ effectiveApiKey h c,
      body = \<lparr>model = MODEL, prompt = p, max_tokens = mt, temperature = t\<rparr>\<rparr>"

text \<open>
  \<open>callGroq\<close> takes the trace of host effects so far and returns the text or the error
  thrown, with the trace extended by the request when one was sent.
\<close>

definition callGroq ::
  "'n host \<Rightarrow> closure \<Rightarrow> event list \<Rightarrow> string \<Rightarrow> rat \<Rightarrow> nat \<Rightarrow> (js_error + string) \<times> event list" where
  "callGroq h c tr p t mt =
     (if effectiveApiKey h c = [] then (Inl (Error MISSING_KEY), tr)
      else
        let req = mk_request h c p t mt; tr' = tr @ [Fetch req] in
        (case fetch h tr req of
           Rejected m \<Rightarrow> (Inl (Error m), tr')
         | Resolved res \<Rightarrow>
             if \<not> ok res then
               (case res_text res of
                  Inl m \<Rightarrow> (Inl (Error m), tr')
                | Inr txt \<Rightarrow>
                    (Inl (Error (''GROQ API error: '' @ show_nat (status res) @ '' '' @ txt)), tr'))
             else
               (case res_json res of
                  Inl m \<Rightarrow> (Inl (Error m), tr')
                | Inr data \<Rightarrow> (completion_text h data, tr'))))"

section \<open>The component\<close>

definition uid :: "'n host \<Rightarrow> string \<Rightarrow> nat \<Rightarrow> string" where
  "uid h pfx n = pfx @ ''_'' @ random36 h n"

definition SYSTEM_TEXT :: "'n host \<Rightarrow> string" where
  "SYSTEM_TEXT h = ''You are Pihu '' @ EM_DASH h @ '' an agentic interview assistant that plans, asks context-aware follow-ups, conducts behavioral + technical interview questions, evaluates answers, and provides concise feedback and scores.''"

text \<open>The state after the first render: the \<open>useState\<close> initial values.\<close>

definition initial :: "'n host \<Rightarrow> world" where
  "initial h =
     \<lparr>messages = [\<lparr>m_id = uid h ''sys'' 0, m_role = System, m_text = SYSTEM_TEXT h\<rparr>],
      candidateProfile = [], userInput = [], isThinking = False, devApiKey = [],
      diagnostics = None, lastTestResponse = None, trace = [], draws = 1\<rparr>"

text \<open>\<open>append\<close>: \<open>setMessages((s) => [...s, m])\<close>.\<close>

definition append_msg :: "message \<Rightarrow> world \<Rightarrow> world" where
  "append_msg m w = w\<lparr>messages := messages w @ [m]\<rparr>"

text \<open>\<open>append({ id: uid(pfx), role, text })\<close>, one draw for the identifier.\<close>

definition append_new :: "'n host \<Rightarrow> string \<Rightarrow> role \<Rightarrow> string \<Rightarrow> world \<Rightarrow> world" where
  "append_new h pfx r txt w =
     append_msg \<lparr>m_id = uid h pfx (draws w), m_role = r, m_text = txt\<rparr>
       (w\<lparr>draws := Suc (draws w)\<rparr>)"

definition speakText :: "string \<Rightarrow> bool \<Rightarrow> world \<Rightarrow> world" where
  "speakText txt rearm w = w\<lparr>trace := trace w @ [Speak txt rearm]\<rparr>"

text \<open>The \<open>catch\<close> block shared by the three operations.\<close>

definition catch_error :: "'n host \<Rightarrow> js_error \<Rightarrow> world \<Rightarrow> world" where
  "catch_error h err w = append_new h ''aerr'' Assistant (''Error: '' @ message_of err) w"

definition startAnnouncement :: "string \<Rightarrow> string" where
  "startAnnouncement profile = ''Start an agentic interview for candidate:\<newline>'' @ profile"

definition planPrompt :: "string \<Rightarrow> string" where
  "planPrompt profile = ''You are an expert interview designer. Given the candidate profile below, produce a short JSON plan with:\<newline>1) role summary (1 line)\<newline>2) 3 follow-up clarifying questions to ask candidate before interview\<newline>3) 6 interview questions (mix of behavioral + technical) with a 1-3 line rubric for each question.\<newline>\<newline>Candidate profile:\<newline>'' @ profile"

definition followupsPrompt :: "string \<Rightarrow> string" where
  "followupsPrompt planText = ''From this plan, extract only the 3 follow-up clarifying questions in a numbered list. Plan was:\<newline>'' @ planText"

text \<open>\<open>messages.map((m) => `${m.role.toUpperCase()}: ${m.text}`).join("\n")\<close>\<close>

definition conversation :: "message list \<Rightarrow> string" where
  "conversation ms = join ''\<newline>'' (map (\<lambda>m. toUpperCase (m_role m) @ '': '' @ m_text m) ms)"

definition askNextPrompt :: "message list \<Rightarrow> string" where
  "askNextPrompt ms = ''You are the interviewer. Ask one interview question or follow-up based on the conversation so far. Conversation messages:\<newline>'' @ conversation ms @ ''\<newline>If the next step is to ask a rubric-based question, include a short rubric after the question separated by \<newline>---\<newline>Rubric:''"

definition evalPrompt :: "message list \<Rightarrow> string \<Rightarrow> string" where
  "evalPrompt ms txt = ''You are an interview evaluator. Given the last interview question and the candidate's answer below, provide:\<newline>1) a short score 1-5,\<newline>2) 2-line feedback,\<newline>3) suggested follow-up probe (single sentence) if needed.\<newline>\<newline>Conversation:\<newline>'' @ conversation ms @ ''\<newline>CANDIDATE_ANSWER: '' @ txt"

text \<open>
  Each operation runs from its first statement to its last without another event in
  between: the \<open>await\<close>s are where the host answers.  \<open>c\<close> is the closure that runs,
  \<open>w\<close> the live state.
\<close>

definition startAgenticInterview :: "'n host \<Rightarrow> closure \<Rightarrow> world \<Rightarrow> world" where
  "startAgenticInterview h c w =
     (let w1 = append_new h ''u'' User (startAnnouncement (c_candidateProfile c))
                 (w\<lparr>isThinking := True\<rparr>)
      in case callGroq h c (trace w1) (planPrompt (c_candidateProfile c)) (1 / 10) 400 of
           (Inl err, tr1) \<Rightarrow> (catch_error h err (w1\<lparr>trace := tr1\<rparr>))\<lparr>isThinking := False\<rparr>
         | (Inr planText, tr1) \<Rightarrow>
             (let w2 = append_new h ''a'' Assistant (''PLAN:\<newline>'' @ planText) (w1\<lparr>trace := tr1\<rparr>)
              in case callGroq h c (trace w2) (followupsPrompt planText) (1 / 10) 200 of
                   (Inl err, tr2) \<Rightarrow>
                     (catch_error h err (w2\<lparr>trace := tr2\<rparr>))\<lparr>isThinking := False\<rparr>
                 | (Inr followupText, tr2) \<Rightarrow>
                     (speakText (''Let's begin the interview. '' @ followupText) True
                        (append_new h ''a'' Assistant (''FOLLOW-UPS:\<newline>'' @ followupText)
                           (w2\<lparr>trace := tr2\<rparr>)))\<lparr>isThinking := False\<rparr>))"

definition handleAskNext :: "'n host \<Rightarrow> closure \<Rightarrow> world \<Rightarrow> world" where
  "handleAskNext h c w =
     (let w1 = w\<lparr>isThinking := True\<rparr>
      in case callGroq h c (trace w1) (askNextPrompt (c_messages c)) (2 / 10) 400 of
           (Inl err, tr1) \<Rightarrow> (catch_error h err (w1\<lparr>trace := tr1\<rparr>))\<lparr>isThinking := False\<rparr>
         | (Inr resp, tr1) \<Rightarrow>
             (speakText resp True
                (append_new h ''a'' Assistant resp (w1\<lparr>trace := tr1\<rparr>)))\<lparr>isThinking := False\<rparr>)"

definition handleUserSubmit :: "'n host \<Rightarrow> closure \<Rightarrow> world \<Rightarrow> world" where
  "handleUserSubmit h c w =
     (if trim (c_userInput c) = [] then w
      else
        let txt = trim (c_userInput c);
            w1 = (append_new h ''u'' User txt (w\<lparr>userInput := []\<rparr>))\<lparr>isThinking := True\<rparr>
        in case callGroq h c (trace w1) (evalPrompt (c_messages c) txt) 0 250 of
             (Inl err, tr1) \<Rightarrow> (catch_error h err (w1\<lparr>trace := tr1\<rparr>))\<lparr>isThinking := False\<rparr>
           | (Inr evalText, tr1) \<Rightarrow>
               (speakText evalText False
                  (append_new h ''a'' Assistant (''EVALUATION:\<newline>'' @ evalText)
                     (w1\<lparr>trace := tr1\<rparr>)))\<lparr>isThinking := False\<rparr>)"

definition handleVoiceInput :: "'n host \<Rightarrow> closure \<Rightarrow> world \<Rightarrow> string \<Rightarrow> world" where
  "handleVoiceInput h c w transcript =
     handleUserSubmit h c (append_new h ''u'' User transcript (w\<lparr>userInput := []\<rparr>))"

definition runDiagnostics :: "'n host \<Rightarrow> closure \<Rightarrow> world \<Rightarrow> world" where
  "runDiagnostics h c w =
     w\<lparr>diagnostics := Some (join ''\<newline>''
        [''import.meta.env available: '' @
           (if readImportMetaEnvSafely h \<noteq> None then ''yes'' else ''no''),
         ''window.__ENV present: '' @ (if window_ENV h \<noteq> None then ''yes'' else ''no''),
         ''Detected GROQ_API_URL: '' @ GROQ_API_URL h,
         ''Static API key present at build/runtime: '' @
           (if STATIC_API_KEY h \<noteq> [] then ''YES'' else ''NO''),
         ''Effective API key (static || dev): '' @
           (if effectiveApiKey h c \<noteq> [] then ''YES'' else ''NO'')])\<rparr>"

definition runTestPrompt :: "'n host \<Rightarrow> closure \<Rightarrow> world \<Rightarrow> world" where
  "runTestPrompt h c w =
     (if effectiveApiKey h c = [] then
        w\<lparr>lastTestResponse := Some ''No API key configured (set VITE_GROQ_API_KEY or paste a Dev API Key). Test aborted.''\<rparr>
      else
        let w1 = w\<lparr>lastTestResponse :=
                   Some (''Running test prompt '' @ EM_DASH h @ '' waiting for response...'')\<rparr>
        in case callGroq h c (trace w1)
                  ''Respond with 'groq-test-ok' to confirm connectivity and authentication.'' 0 40 of
             (Inl err, tr1) \<Rightarrow>
               w1\<lparr>trace := tr1, lastTestResponse := Some (''Test failed: '' @ message_of err)\<rparr>
           | (Inr resp, tr1) \<Rightarrow>
               speakText resp False
                 (w1\<lparr>trace := tr1,
                    lastTestResponse := Some (''OK '' @ EM_DASH h @ '' response:\<newline>'' @ resp)\<rparr>))"

text \<open>The Clear Conversation button: \<open>setMessages([])\<close>.\<close>

definition clearConversation :: "world \<Rightarrow> world" where
  "clearConversation w = w\<lparr>messages := []\<rparr>"

section \<open>What the user and the host can trigger\<close>

datatype op =
    StartInterview
  | AskNext
  | Submit
  | VoiceResult string
  | Clear
  | SetCandidateProfile string
  | SetUserInput string
  | SetDevApiKey string
  | RunDiagnostics
  | RunTestPrompt

text \<open>
  A button runs the handler of the current render, and does nothing while it is
  disabled.  The recognition callback was installed by the effect of the first render
  (\<open>useEffect\<close> with no dependencies), so a recognized utterance runs the
  \<open>handleVoiceInput\<close> of that first render.
\<close>

fun step :: "'n host \<Rightarrow> world \<Rightarrow> op \<Rightarrow> world" where
  "step h w StartInterview =
     (if trim (candidateProfile w) = [] \<or> isThinking w then w
      else startAgenticInterview h (render w) w)"
| "step h w AskNext = (if isThinking w then w else handleAskNext h (render w) w)"
| "step h w Submit = handleUserSubmit h (render w) w"
| "step h w (VoiceResult t) = handleVoiceInput h (render (initial h)) w t"
| "step h w Clear = clearConversation w"
| "step h w (SetCandidateProfile s) = w\<lparr>candidateProfile := s\<rparr>"
| "step h w (SetUserInput s) = w\<lparr>userInput := s\<rparr>"
| "step h w (SetDevApiKey s) = w\<lparr>devApiKey := s\<rparr>"
| "step h w RunDiagnostics = runDiagnostics h (render w) w"
| "step h w RunTestPrompt = runTestPrompt h (render w) w"

definition run :: "'n host \<Rightarrow> world \<Rightarrow> op list \<Rightarrow> world" where
  "run h w ops = foldl (step h) w ops"

text \<open>\<open>undefined\<close> or \<open>null\<close>: what \<open>??\<close> and \<open>?.\<close> skip.\<close>

fun nullish :: "'n json option \<Rightarrow> bool" where
  "nullish None = True"
| "nullish (Some JNull) = True"
| "nullish (Some v) = False"

section \<open>Stub hosts\<close>

text \<open>
  Concrete hosts on which the definitions can be run: the credential comes from the
  build-time environment, identifiers are numbered, and the network is a given function.
\<close>

definition stub_host :: "string \<Rightarrow> (event list \<Rightarrow> request \<Rightarrow> nat fetch_result) \<Rightarrow> nat host" where
  "stub_host key f =
     \<lparr>import_meta_env = Some [''VITE_GROQ_API_KEY'' \<mapsto> key], window_ENV = None,
      window_env = None, window_props = Map.empty, fetch = f, random36 = show_nat,
      num_toString = show_nat, num_isFinite = (\<lambda>n. True),
      TypeError_message = ''Cannot convert object to primitive value'', EM_DASH = ''--''\<rparr>"

definition reply :: "nat \<Rightarrow> string \<Rightarrow> nat json \<Rightarrow> nat fetch_result" where
  "reply st txt j = Resolved \<lparr>status = st, res_text = Inr txt, res_json = Inr j\<rparr>"

definition text_body :: "string \<Rightarrow> nat json" where
  "text_body X = JObject [(''choices'', JArray [JObject [(''text'', JString X)]])]"


definition chat_body :: "string \<Rightarrow> nat json" where
  "chat_body Z = JObject [(''choices'', JArray [JObject [(''message'', JObject [(''content'', JString Z)])]])]"


definition keyless_host :: "nat host" where
  "keyless_host = stub_host [] (\<lambda>tr req. reply 200 [] (text_body ''X''))"

definition echo_host :: "nat host" where
  "echo_host = stub_host ''k'' (\<lambda>tr req. reply 200 [] (text_body ''X''))"

definition flaky_host :: "nat host" where
  "flaky_host = stub_host ''k''
     (\<lambda>tr req. if tr = [] then reply 200 [] (text_body ''X'') else reply 500 ''overloaded'' JNull)"

definition chat_host :: "nat host" where
  "chat_host = stub_host ''k'' (\<lambda>tr req. reply 200 [] (chat_body ''Z''))"



definition demo_world :: "nat host \<Rightarrow> world" where
  "demo_world h = (initial h)\<lparr>candidateProfile := ''backend engineer, 5 years'', userInput := ''Redis''\<rparr>"

section \<open>Basic facts\<close>

lemma callGroq_trace:
  "callGroq h c tr p t mt = (r, tr') \<Longrightarrow> tr' = tr \<or> tr' = tr @ [Fetch (mk_request h c p t mt)]"
  by (auto simp: callGroq_def Let_def split: if_splits fetch_result.splits sum.splits)

lemma callGroq_ok_trace:
  "callGroq h c tr p t mt = (Inr x, tr') \<Longrightarrow> tr' = tr @ [Fetch (mk_request h c p t mt)]"
  by (auto simp: callGroq_def Let_def split: if_splits fetch_result.splits sum.splits)

lemma messages_append_new [simp]:
  "messages (append_new h pfx r txt w) =
     messages w @ [\<lparr>m_id = uid h pfx (draws w), m_role = r, m_text = txt\<rparr>]"
  by (simp add: append_new_def append_msg_def)

lemma trace_append_new [simp]: "trace (append_new h pfx r txt w) = trace w"
  by (simp add: append_new_def append_msg_def)

lemma draws_append_new [simp]: "draws (append_new h pfx r txt w) = Suc (draws w)"
  by (simp add: append_new_def append_msg_def)

lemma prefix_start: "prefix (messages w) (messages (startAgenticInterview h c w))"
  by (auto simp: startAgenticInterview_def Let_def catch_error_def speakText_def split: prod.splits sum.splits)

lemma prefix_ask: "prefix (messages w) (messages (handleAskNext h c w))"
  by (auto simp: handleAskNext_def Let_def catch_error_def speakText_def split: prod.splits sum.splits)

lemma prefix_submit: "prefix (messages w) (messages (handleUserSubmit h c w))"
  by (auto simp: handleUserSubmit_def Let_def catch_error_def speakText_def split: prod.splits sum.splits)

lemma prefix_voice: "prefix (messages w) (messages (handleVoiceInput h c w t))"
  unfolding handleVoiceInput_def
  by (rule prefix_order.trans[OF _ prefix_submit]) simp

lemma messages_diag: "messages (runDiagnostics h c w) = messages w"
  by (simp add: runDiagnostics_def)

lemma messages_test: "messages (runTestPrompt h c w) = messages w"
  by (auto simp: runTestPrompt_def Let_def speakText_def split: prod.splits sum.splits)

lemma step_prefix: "op \<noteq> Clear \<Longrightarrow> prefix (messages w) (messages (step h w op))"
  by (cases op) (simp_all add: prefix_start prefix_ask prefix_submit prefix_voice messages_diag messages_test)

lemma run_snoc: "run h w (ops @ [op]) = step h (run h w ops) op"
  by (simp add: run_def)

lemma run_prefix: "Clear \<notin> set ops \<Longrightarrow> prefix (messages w) (messages (run h w ops))"
proof (induction ops rule: rev_induct)
  case Nil
  then show ?case by (simp add: run_def)
next
  case (snoc op ops)
  then have "prefix (messages w) (messages (run h w ops))" by simp
  moreover from snoc.prems have "prefix (messages (run h w ops)) (messages (step h (run h w ops) op))"
    by (intro step_prefix) auto
  ultimately show ?case by (simp add: run_snoc)
qed

lemma STATIC_stub [simp]: "STATIC_API_KEY (stub_host key f) = key"
  by (simp add: STATIC_API_KEY_def getRuntimeEnv_def readImportMetaEnvSafely_def stub_host_def)

lemma fetch_stub [simp]: "fetch (stub_host key f) = f"
  by (simp add: stub_host_def)

lemma TypeError_stub [simp]:
  "TypeError_message (stub_host key f) = ''Cannot convert object to primitive value''"
  by (simp add: stub_host_def)

lemma key_stub [simp]: "effectiveApiKey (stub_host key f) c = (if key \<noteq> [] then key else c_devApiKey c)"
  by (simp add: effectiveApiKey_def)

lemma ok_200: "ok \<lparr>status = 200, res_text = a, res_json = b\<rparr>"
  by (simp add: ok_def)

lemma not_ok_500: "\<not> ok \<lparr>status = 500, res_text = a, res_json = b\<rparr>"
  by (simp add: ok_def)

lemma completion_text_body [simp]: "completion_text h (text_body X) = Inr X"
  by (simp add: completion_text_def text_of_def first_choice_text_def output_field_def text_body_def)





lemma callGroq_echo:
  "callGroq echo_host c tr p t mt = (Inr ''X'', tr @ [Fetch (mk_request echo_host c p t mt)])"
  by (simp add: callGroq_def echo_host_def reply_def ok_200)

lemma callGroq_keyless:
  "c_devApiKey c = [] \<Longrightarrow> callGroq keyless_host c tr p t mt = (Inl (Error MISSING_KEY), tr)"
  by (simp add: callGroq_def keyless_host_def)

lemma show_500: "show_nat 500 = ''500''"
  by (simp add: show_nat.simps)

lemma callGroq_flaky_first:
  "callGroq flaky_host c [] p t mt = (Inr ''X'', [Fetch (mk_request flaky_host c p t mt)])"
  by (simp add: callGroq_def flaky_host_def reply_def ok_200)

lemma callGroq_flaky_later:
  "callGroq flaky_host c [e] p t mt =
     (Inl (Error ''GROQ API error: 500 overloaded''), [e, Fetch (mk_request flaky_host c p t mt)])"
  by (simp add: callGroq_def flaky_host_def reply_def not_ok_500 show_500)

lemma demo_closure:
  "render (demo_world h) =
     \<lparr>c_messages = [\<lparr>m_id = uid h ''sys'' 0, m_role = System, m_text = SYSTEM_TEXT h\<rparr>],
      c_candidateProfile = ''backend engineer, 5 years'', c_userInput = ''Redis'',
      c_devApiKey = []\<rparr>"
  by (simp add: render_def demo_world_def initial_def)

lemma demo_world_fields [simp]:
  "messages (demo_world h) = [\<lparr>m_id = uid h ''sys'' 0, m_role = System, m_text = SYSTEM_TEXT h\<rparr>]"
  "trace (demo_world h) = []"
  "draws (demo_world h) = 1"
  "isThinking (demo_world h) = False"
  "userInput (demo_world h) = ''Redis''"
  "candidateProfile (demo_world h) = ''backend engineer, 5 years''"
  "devApiKey (demo_world h) = []"
  by (simp_all add: demo_world_def initial_def)

lemma trim_Redis: "trim ''Redis'' = ''Redis''"
  by (simp add: trim_def is_ws_def)

lemma stringify_chat_body:
  \<open>JSON_stringify h (chat_body ''Z'') = ''{"choices":[{"message":{"content":"Z"}}]}''\<close>
  by (simp add: chat_body_def quote_def quote_char_def)

lemma chat_body_fields:
  "first_choice_text (chat_body Z) = None" "output_field (chat_body Z) = None"
  by (simp_all add: first_choice_text_def output_field_def chat_body_def)

lemma voice_only_appends:
  "step h w (VoiceResult t) = append_new h ''u'' User t (w\<lparr>userInput := []\<rparr>)"
  by (simp add: handleVoiceInput_def handleUserSubmit_def render_def initial_def trim_def)

section \<open>The claims\<close>

text \<open>
  C1.  Whatever the prompt, the temperature and the token bound: when the static
  credential and the Dev API Key of the running closure are both empty, \<open>callGroq\<close>
  throws the missing-key error and the trace of host effects is the one it was given, so
  \<open>fetch\<close> was not invoked.
\<close>

theorem callGroq_missing_key:
  "STATIC_API_KEY h = [] \<Longrightarrow> c_devApiKey c = [] \<Longrightarrow>
   callGroq h c tr p t mt = (Inl (Error MISSING_KEY), tr)"
  by (simp add: callGroq_def effectiveApiKey_def)

theorem callGroq_missing_key_witness:
  "STATIC_API_KEY keyless_host = [] \<and>
   c_devApiKey (render (initial keyless_host)) = [] \<and>
   callGroq keyless_host (render (initial keyless_host)) [] ''Hello'' (2 / 10) 600 =
     (Inl (Error MISSING_KEY), [])"
  using callGroq_missing_key [of keyless_host "render (initial keyless_host)" "[]" "''Hello''" "2 / 10" 600]
  by (simp add: render_def initial_def keyless_host_def)

text \<open>
  C2.  When the plan call and the follow-up-extraction call of \<open>startAgenticInterview\<close>
  both return a text, the host sees exactly the plan request, then the follow-up request
  (whose prompt embeds the text the plan call returned), then the utterance given to speech
  synthesis, in this order; and the transcript gains, in order, the user message
  announcing the start, an assistant message \<open>PLAN:\<close> and an assistant message
  \<open>FOLLOW-UPS:\<close>.  This holds for every profile, so for every non-empty one.
\<close>

theorem startAgenticInterview_success:
  assumes plan: "callGroq h c (trace w) (planPrompt (c_candidateProfile c)) (1 / 10) 400 = (Inr planText, tr1)"
    and follow: "callGroq h c tr1 (followupsPrompt planText) (1 / 10) 200 = (Inr followupText, tr2)"
  shows "messages (startAgenticInterview h c w) =
           messages w @
             [\<lparr>m_id = uid h ''u'' (draws w), m_role = User,
                m_text = startAnnouncement (c_candidateProfile c)\<rparr>,
              \<lparr>m_id = uid h ''a'' (draws w + 1), m_role = Assistant,
                m_text = ''PLAN:\<newline>'' @ planText\<rparr>,
              \<lparr>m_id = uid h ''a'' (draws w + 2), m_role = Assistant,
                m_text = ''FOLLOW-UPS:\<newline>'' @ followupText\<rparr>]
         \<and> trace (startAgenticInterview h c w) =
           trace w @
             [Fetch (mk_request h c (planPrompt (c_candidateProfile c)) (1 / 10) 400),
              Fetch (mk_request h c (followupsPrompt planText) (1 / 10) 200),
              Speak (''Let's begin the interview. '' @ followupText) True]
         \<and> isThinking (startAgenticInterview h c w) = False"
proof -
  have t1: "tr1 = trace w @ [Fetch (mk_request h c (planPrompt (c_candidateProfile c)) (1 / 10) 400)]"
    using plan by (rule callGroq_ok_trace)
  have t2: "tr2 = tr1 @ [Fetch (mk_request h c (followupsPrompt planText) (1 / 10) 200)]"
    using follow by (rule callGroq_ok_trace)
  have tr: "trace (startAgenticInterview h c w) =
      tr2 @ [Speak (''Let's begin the interview. '' @ followupText) True]"
    using plan follow by (simp add: startAgenticInterview_def Let_def speakText_def)
  have ms: "messages (startAgenticInterview h c w) =
           messages w @
             [\<lparr>m_id = uid h ''u'' (draws w), m_role = User,
                m_text = startAnnouncement (c_candidateProfile c)\<rparr>,
              \<lparr>m_id = uid h ''a'' (draws w + 1), m_role = Assistant,
                m_text = ''PLAN:\<newline>'' @ planText\<rparr>,
              \<lparr>m_id = uid h ''a'' (draws w + 2), m_role = Assistant,
                m_text = ''FOLLOW-UPS:\<newline>'' @ followupText\<rparr>]"
    using plan follow by (simp add: startAgenticInterview_def Let_def speakText_def)
  have th: "isThinking (startAgenticInterview h c w) = False"
    using plan follow by (simp add: startAgenticInterview_def Let_def)
  from tr t1 t2 ms th show ?thesis by simp
qed

theorem startAgenticInterview_success_witness:
  "callGroq echo_host (render (demo_world echo_host)) (trace (demo_world echo_host))
      (planPrompt (c_candidateProfile (render (demo_world echo_host)))) (1 / 10) 400 =
     (Inr ''X'', [Fetch (mk_request echo_host (render (demo_world echo_host))
                    (planPrompt ''backend engineer, 5 years'') (1 / 10) 400)])
 \<and> callGroq echo_host (render (demo_world echo_host))
      [Fetch (mk_request echo_host (render (demo_world echo_host))
         (planPrompt ''backend engineer, 5 years'') (1 / 10) 400)]
      (followupsPrompt ''X'') (1 / 10) 200 =
     (Inr ''X'', [Fetch (mk_request echo_host (render (demo_world echo_host))
                    (planPrompt ''backend engineer, 5 years'') (1 / 10) 400),
                 Fetch (mk_request echo_host (render (demo_world echo_host))
                    (followupsPrompt ''X'') (1 / 10) 200)])
 \<and> map m_role (messages (startAgenticInterview echo_host (render (demo_world echo_host))
        (demo_world echo_host))) = [System, User, Assistant, Assistant]
 \<and> map m_text (drop 2 (messages (startAgenticInterview echo_host (render (demo_world echo_host))
        (demo_world echo_host)))) = [''PLAN:\<newline>X'', ''FOLLOW-UPS:\<newline>X'']
 \<and> trace (startAgenticInterview echo_host (render (demo_world echo_host)) (demo_world echo_host)) =
     [Fetch (mk_request echo_host (render (demo_world echo_host))
        (planPrompt ''backend engineer, 5 years'') (1 / 10) 400),
      Fetch (mk_request echo_host (render (demo_world echo_host)) (followupsPrompt ''X'') (1 / 10) 200),
      Speak ''Let's begin the interview. X'' True]"
proof -
  have p: "c_candidateProfile (render (demo_world echo_host)) = ''backend engineer, 5 years''"
    by (simp add: render_def demo_world_def)
  have t: "trace (demo_world echo_host) = []"
    by (simp add: demo_world_def initial_def)
  have m: "messages (demo_world echo_host) =
      [\<lparr>m_id = uid echo_host ''sys'' 0, m_role = System, m_text = SYSTEM_TEXT echo_host\<rparr>]"
    by (simp add: demo_world_def initial_def)
  have h1: "callGroq echo_host (render (demo_world echo_host)) (trace (demo_world echo_host))
      (planPrompt (c_candidateProfile (render (demo_world echo_host)))) (1 / 10) 400 =
     (Inr ''X'', [Fetch (mk_request echo_host (render (demo_world echo_host))
                    (planPrompt ''backend engineer, 5 years'') (1 / 10) 400)])"
    by (simp add: callGroq_echo p t)
  have h2: "callGroq echo_host (render (demo_world echo_host))
      [Fetch (mk_request echo_host (render (demo_world echo_host))
         (planPrompt ''backend engineer, 5 years'') (1 / 10) 400)]
      (followupsPrompt ''X'') (1 / 10) 200 =
     (Inr ''X'', [Fetch (mk_request echo_host (render (demo_world echo_host))
                    (planPrompt ''backend engineer, 5 years'') (1 / 10) 400),
                 Fetch (mk_request echo_host (render (demo_world echo_host))
                    (followupsPrompt ''X'') (1 / 10) 200)])"
    by (simp add: callGroq_echo)
  from startAgenticInterview_success [OF h1 h2] h1 h2 show ?thesis
    by (simp add: p t m)
qed

text \<open>
  C3.  When a completion call of start interview, ask next or submit answer fails, the
  operation ends in the state it had reached, with one assistant message \<open>Error: \<close>
  followed by the failure's message appended, \<open>isThinking\<close> false, and the trace left
  as the failed call returned it: no request follows (a failed plan call is not followed
  by the follow-up request), and the messages appended before remain.
\<close>

theorem failure_policy:
  "(callGroq h c (trace w) (planPrompt (c_candidateProfile c)) (1 / 10) 400 = (Inl err, tr1) \<longrightarrow>
      startAgenticInterview h c w =
        w\<lparr>messages := messages w @
             [\<lparr>m_id = uid h ''u'' (draws w), m_role = User,
                m_text = startAnnouncement (c_candidateProfile c)\<rparr>,
              \<lparr>m_id = uid h ''aerr'' (draws w + 1), m_role = Assistant,
                m_text = ''Error: '' @ message_of err\<rparr>],
          isThinking := False, trace := tr1, draws := draws w + 2\<rparr>
      \<and> (tr1 = trace w \<or>
           tr1 = trace w @ [Fetch (mk_request h c (planPrompt (c_candidateProfile c)) (1 / 10) 400)]))
 \<and> (callGroq h c (trace w) (planPrompt (c_candidateProfile c)) (1 / 10) 400 = (Inr planText, tr1) \<and>
     callGroq h c tr1 (followupsPrompt planText) (1 / 10) 200 = (Inl err, tr2) \<longrightarrow>
      startAgenticInterview h c w =
        w\<lparr>messages := messages w @
             [\<lparr>m_id = uid h ''u'' (draws w), m_role = User,
                m_text = startAnnouncement (c_candidateProfile c)\<rparr>,
              \<lparr>m_id = uid h ''a'' (draws w + 1), m_role = Assistant,
                m_text = ''PLAN:\<newline>'' @ planText\<rparr>,
              \<lparr>m_id = uid h ''aerr'' (draws w + 2), m_role = Assistant,
                m_text = ''Error: '' @ message_of err\<rparr>],
          isThinking := False, trace := tr2, draws := draws w + 3\<rparr>
      \<and> tr2 = trace w @
            [Fetch (mk_request h c (planPrompt (c_candidateProfile c)) (1 / 10) 400),
             Fetch (mk_request h c (followupsPrompt planText) (1 / 10) 200)])
 \<and> (callGroq h c (trace w) (askNextPrompt (c_messages c)) (2 / 10) 400 = (Inl err, tr1) \<longrightarrow>
      handleAskNext h c w =
        w\<lparr>messages := messages w @
             [\<lparr>m_id = uid h ''aerr'' (draws w), m_role = Assistant,
                m_text = ''Error: '' @ message_of err\<rparr>],
          isThinking := False, trace := tr1, draws := draws w + 1\<rparr>
      \<and> (tr1 = trace w \<or>
           tr1 = trace w @ [Fetch (mk_request h c (askNextPrompt (c_messages c)) (2 / 10) 400)]))
 \<and> (trim (c_userInput c) \<noteq> [] \<and>
     callGroq h c (trace w) (evalPrompt (c_messages c) (trim (c_userInput c))) 0 250 = (Inl err, tr1) \<longrightarrow>
      handleUserSubmit h c w =
        w\<lparr>messages := messages w @
             [\<lparr>m_id = uid h ''u'' (draws w), m_role = User, m_text = trim (c_userInput c)\<rparr>,
              \<lparr>m_id = uid h ''aerr'' (draws w + 1), m_role = Assistant,
                m_text = ''Error: '' @ message_of err\<rparr>],
          userInput := [], isThinking := False, trace := tr1, draws := draws w + 2\<rparr>
      \<and> (tr1 = trace w \<or>
           tr1 = trace w @
             [Fetch (mk_request h c (evalPrompt (c_messages c) (trim (c_userInput c))) 0 250)]))"
proof (intro conjI impI)
  assume a: "callGroq h c (trace w) (planPrompt (c_candidateProfile c)) (1 / 10) 400 = (Inl err, tr1)"
  then show "startAgenticInterview h c w =
        w\<lparr>messages := messages w @
             [\<lparr>m_id = uid h ''u'' (draws w), m_role = User,
                m_text = startAnnouncement (c_candidateProfile c)\<rparr>,
              \<lparr>m_id = uid h ''aerr'' (draws w + 1), m_role = Assistant,
                m_text = ''Error: '' @ message_of err\<rparr>],
          isThinking := False, trace := tr1, draws := draws w + 2\<rparr>"
    by (simp add: startAgenticInterview_def Let_def catch_error_def append_new_def append_msg_def)
  from a show "tr1 = trace w \<or>
           tr1 = trace w @ [Fetch (mk_request h c (planPrompt (c_candidateProfile c)) (1 / 10) 400)]"
    by (rule callGroq_trace)
next
  assume a: "callGroq h c (trace w) (planPrompt (c_candidateProfile c)) (1 / 10) 400 = (Inr planText, tr1) \<and>
     callGroq h c tr1 (followupsPrompt planText) (1 / 10) 200 = (Inl err, tr2)"
  then show "startAgenticInterview h c w =
        w\<lparr>messages := messages w @
             [\<lparr>m_id = uid h ''u'' (draws w), m_role = User,
                m_text = startAnnouncement (c_candidateProfile c)\<rparr>,
              \<lparr>m_id = uid h ''a'' (draws w + 1), m_role = Assistant,
                m_text = ''PLAN:\<newline>'' @ planText\<rparr>,
              \<lparr>m_id = uid h ''aerr'' (draws w + 2), m_role = Assistant,
                m_text = ''Error: '' @ message_of err\<rparr>],
          isThinking := False, trace := tr2, draws := draws w + 3\<rparr>"
    by (simp add: startAgenticInterview_def Let_def catch_error_def append_new_def append_msg_def)
  from a have k: "effectiveApiKey h c \<noteq> []"
    by (auto simp: callGroq_def split: if_splits)
  from a have t1: "tr1 = trace w @ [Fetch (mk_request h c (planPrompt (c_candidateProfile c)) (1 / 10) 400)]"
    by (auto dest: callGroq_ok_trace)
  from a k have "tr2 = tr1 @ [Fetch (mk_request h c (followupsPrompt planText) (1 / 10) 200)]"
    by (auto simp: callGroq_def Let_def split: if_splits fetch_result.splits sum.splits)
  with t1 show "tr2 = trace w @
            [Fetch (mk_request h c (planPrompt (c_candidateProfile c)) (1 / 10) 400),
             Fetch (mk_request h c (followupsPrompt planText) (1 / 10) 200)]"
    by simp
next
  assume a: "callGroq h c (trace w) (askNextPrompt (c_messages c)) (2 / 10) 400 = (Inl err, tr1)"
  then show "handleAskNext h c w =
        w\<lparr>messages := messages w @
             [\<lparr>m_id = uid h ''aerr'' (draws w), m_role = Assistant,
                m_text = ''Error: '' @ message_of err\<rparr>],
          isThinking := False, trace := tr1, draws := draws w + 1\<rparr>"
    by (simp add: handleAskNext_def Let_def catch_error_def append_new_def append_msg_def)
  from a show "tr1 = trace w \<or>
           tr1 = trace w @ [Fetch (mk_request h c (askNextPrompt (c_messages c)) (2 / 10) 400)]"
    by (rule callGroq_trace)
next
  assume a: "trim (c_userInput c) \<noteq> [] \<and>
     callGroq h c (trace w) (evalPrompt (c_messages c) (trim (c_userInput c))) 0 250 = (Inl err, tr1)"
  then show "handleUserSubmit h c w =
        w\<lparr>messages := messages w @
             [\<lparr>m_id = uid h ''u'' (draws w), m_role = User, m_text = trim (c_userInput c)\<rparr>,
              \<lparr>m_id = uid h ''aerr'' (draws w + 1), m_role = Assistant,
                m_text = ''Error: '' @ message_of err\<rparr>],
          userInput := [], isThinking := False, trace := tr1, draws := draws w + 2\<rparr>"
    by (simp add: handleUserSubmit_def Let_def catch_error_def append_new_def append_msg_def)
  from a show "tr1 = trace w \<or>
           tr1 = trace w @
             [Fetch (mk_request h c (evalPrompt (c_messages c) (trim (c_userInput c))) 0 250)]"
    by (auto dest: callGroq_trace)
qed

theorem failure_policy_witness:
  "callGroq keyless_host (render (demo_world keyless_host)) (trace (demo_world keyless_host))
      (planPrompt (c_candidateProfile (render (demo_world keyless_host)))) (1 / 10) 400 =
     (Inl (Error MISSING_KEY), [])
 \<and> map m_text (messages (startAgenticInterview keyless_host (render (demo_world keyless_host))
        (demo_world keyless_host))) =
     [SYSTEM_TEXT keyless_host, startAnnouncement ''backend engineer, 5 years'',
      ''Error: '' @ MISSING_KEY]
 \<and> trace (startAgenticInterview keyless_host (render (demo_world keyless_host))
        (demo_world keyless_host)) = []
 \<and> isThinking (startAgenticInterview keyless_host (render (demo_world keyless_host))
        (demo_world keyless_host)) = False
 \<and> callGroq keyless_host (render (demo_world keyless_host)) (trace (demo_world keyless_host))
      (askNextPrompt (c_messages (render (demo_world keyless_host)))) (2 / 10) 400 =
     (Inl (Error MISSING_KEY), [])
 \<and> map m_text (messages (handleAskNext keyless_host (render (demo_world keyless_host))
        (demo_world keyless_host))) =
     [SYSTEM_TEXT keyless_host, ''Error: '' @ MISSING_KEY]
 \<and> isThinking (handleAskNext keyless_host (render (demo_world keyless_host))
        (demo_world keyless_host)) = False
 \<and> trim (c_userInput (render (demo_world keyless_host))) \<noteq> []
 \<and> callGroq keyless_host (render (demo_world keyless_host)) (trace (demo_world keyless_host))
      (evalPrompt (c_messages (render (demo_world keyless_host)))
         (trim (c_userInput (render (demo_world keyless_host))))) 0 250 =
     (Inl (Error MISSING_KEY), [])
 \<and> map m_text (messages (handleUserSubmit keyless_host (render (demo_world keyless_host))
        (demo_world keyless_host))) =
     [SYSTEM_TEXT keyless_host, ''Redis'', ''Error: '' @ MISSING_KEY]
 \<and> isThinking (handleUserSubmit keyless_host (render (demo_world keyless_host))
        (demo_world keyless_host)) = False
 \<and> callGroq flaky_host (render (demo_world flaky_host)) (trace (demo_world flaky_host))
      (planPrompt (c_candidateProfile (render (demo_world flaky_host)))) (1 / 10) 400 =
     (Inr ''X'', [Fetch (mk_request flaky_host (render (demo_world flaky_host))
        (planPrompt (c_candidateProfile (render (demo_world flaky_host)))) (1 / 10) 400)])
 \<and> callGroq flaky_host (render (demo_world flaky_host))
      [Fetch (mk_request flaky_host (render (demo_world flaky_host))
        (planPrompt (c_candidateProfile (render (demo_world flaky_host)))) (1 / 10) 400)]
      (followupsPrompt ''X'') (1 / 10) 200 =
     (Inl (Error ''GROQ API error: 500 overloaded''),
      [Fetch (mk_request flaky_host (render (demo_world flaky_host))
         (planPrompt (c_candidateProfile (render (demo_world flaky_host)))) (1 / 10) 400),
       Fetch (mk_request flaky_host (render (demo_world flaky_host))
         (followupsPrompt ''X'') (1 / 10) 200)])
 \<and> map m_text (messages (startAgenticInterview flaky_host (render (demo_world flaky_host))
        (demo_world flaky_host))) =
     [SYSTEM_TEXT flaky_host, startAnnouncement ''backend engineer, 5 years'', ''PLAN:\<newline>X'',
      ''Error: GROQ API error: 500 overloaded'']
 \<and> isThinking (startAgenticInterview flaky_host (render (demo_world flaky_host))
        (demo_world flaky_host)) = False"
proof -
  let ?cA = "render (demo_world keyless_host)" and ?wA = "demo_world keyless_host"
  let ?cB = "render (demo_world flaky_host)" and ?wB = "demo_world flaky_host"
  let ?planReq = "Fetch (mk_request flaky_host ?cB (planPrompt (c_candidateProfile ?cB)) (1 / 10) 400)"
  let ?followReq = "Fetch (mk_request flaky_host ?cB (followupsPrompt ''X'') (1 / 10) 200)"
  have k: "c_devApiKey ?cA = []" by (simp add: demo_closure)
  have u: "trim (c_userInput ?cA) \<noteq> []" by (simp add: demo_closure trim_Redis)
  have h1: "callGroq keyless_host ?cA (trace ?wA) (planPrompt (c_candidateProfile ?cA)) (1 / 10) 400 =
      (Inl (Error MISSING_KEY), [])"
    using k by (simp add: callGroq_keyless)
  have h3: "callGroq keyless_host ?cA (trace ?wA) (askNextPrompt (c_messages ?cA)) (2 / 10) 400 =
      (Inl (Error MISSING_KEY), [])"
    using k by (simp add: callGroq_keyless)
  have h4: "callGroq keyless_host ?cA (trace ?wA)
      (evalPrompt (c_messages ?cA) (trim (c_userInput ?cA))) 0 250 = (Inl (Error MISSING_KEY), [])"
    using k by (simp add: callGroq_keyless)
  have h2a: "callGroq flaky_host ?cB (trace ?wB) (planPrompt (c_candidateProfile ?cB)) (1 / 10) 400 =
      (Inr ''X'', [?planReq])"
    by (simp add: callGroq_flaky_first)
  have h2b: "callGroq flaky_host ?cB [?planReq] (followupsPrompt ''X'') (1 / 10) 200 =
      (Inl (Error ''GROQ API error: 500 overloaded''), [?planReq, ?followReq])"
    by (rule callGroq_flaky_later)
  note A = failure_policy [of keyless_host ?cA ?wA "Error MISSING_KEY" "[]" "[]" "[]"]
  note B = failure_policy [of flaky_host ?cB ?wB "Error ''GROQ API error: 500 overloaded''"
      "[?planReq]" "''X''" "[?planReq, ?followReq]"]
  from A h1 have c1: "startAgenticInterview keyless_host ?cA ?wA =
        ?wA\<lparr>messages := messages ?wA @
             [\<lparr>m_id = uid keyless_host ''u'' (draws ?wA), m_role = User,
                m_text = startAnnouncement (c_candidateProfile ?cA)\<rparr>,
              \<lparr>m_id = uid keyless_host ''aerr'' (draws ?wA + 1), m_role = Assistant,
                m_text = ''Error: '' @ message_of (Error MISSING_KEY)\<rparr>],
          isThinking := False, trace := [], draws := draws ?wA + 2\<rparr>"
    by blast
  from A h3 have c3: "handleAskNext keyless_host ?cA ?wA =
        ?wA\<lparr>messages := messages ?wA @
             [\<lparr>m_id = uid keyless_host ''aerr'' (draws ?wA), m_role = Assistant,
                m_text = ''Error: '' @ message_of (Error MISSING_KEY)\<rparr>],
          isThinking := False, trace := [], draws := draws ?wA + 1\<rparr>"
    by blast
  from A u h4 have c4: "handleUserSubmit keyless_host ?cA ?wA =
        ?wA\<lparr>messages := messages ?wA @
             [\<lparr>m_id = uid keyless_host ''u'' (draws ?wA), m_role = User,
                m_text = trim (c_userInput ?cA)\<rparr>,
              \<lparr>m_id = uid keyless_host ''aerr'' (draws ?wA + 1), m_role = Assistant,
                m_text = ''Error: '' @ message_of (Error MISSING_KEY)\<rparr>],
          userInput := [], isThinking := False, trace := [], draws := draws ?wA + 2\<rparr>"
    by blast
  from B h2a h2b have c2: "startAgenticInterview flaky_host ?cB ?wB =
        ?wB\<lparr>messages := messages ?wB @
             [\<lparr>m_id = uid flaky_host ''u'' (draws ?wB), m_role = User,
                m_text = startAnnouncement (c_candidateProfile ?cB)\<rparr>,
              \<lparr>m_id = uid flaky_host ''a'' (draws ?wB + 1), m_role = Assistant,
                m_text = ''PLAN:\<newline>'' @ ''X''\<rparr>,
              \<lparr>m_id = uid flaky_host ''aerr'' (draws ?wB + 2), m_role = Assistant,
                m_text = ''Error: '' @ message_of (Error ''GROQ API error: 500 overloaded'')\<rparr>],
          isThinking := False, trace := [?planReq, ?followReq], draws := draws ?wB + 3\<rparr>"
    by blast
  have p: "c_candidateProfile ?cA = ''backend engineer, 5 years''"
       "c_candidateProfile ?cB = ''backend engineer, 5 years''"
       "c_userInput ?cA = ''Redis''"
    by (simp_all add: demo_closure)
  show ?thesis
    unfolding c1 c2 c3 c4
    using h1 h2a h2b h3 h4 u by (simp add: p trim_Redis)
qed




text \<open>
  C5, as stated, fails: for the body \<open>{choices: [{message: {content: Z}}]}\<close>
  \<open>callGroq\<close> returns the serialized body, not \<open>Z\<close>.
\<close>

theorem message_content_ignored_counterexample:
  \<open>fst (callGroq chat_host (render (demo_world chat_host)) [] ''Hi'' 0 40) =
     Inr ''{"choices":[{"message":{"content":"Z"}}]}''
 \<and> fst (callGroq chat_host (render (demo_world chat_host)) [] ''Hi'' 0 40) \<noteq> Inr ''Z''\<close>
  by (simp add: callGroq_def chat_host_def reply_def ok_200 completion_text_def text_of_def
      chat_body_fields stringify_chat_body)

text \<open>
  C5, amended.  \<open>callGroq\<close> takes the first choice's \<open>text\<close> when it is neither
  missing nor \<open>null\<close>, else \<open>output\<close> when it is neither missing nor \<open>null\<close>,
  else the serialized body; \<open>choices[0].message.content\<close> is not consulted, so a body
  that only carries it yields the serialized body.
\<close>

theorem completion_text_priority:
  "(first_choice_text data = Some v \<and> v \<noteq> JNull \<longrightarrow> completion_text h data = String h v)
 \<and> (nullish (first_choice_text data) \<and> output_field data = Some u \<and> u \<noteq> JNull \<longrightarrow>
      completion_text h data = String h u)
 \<and> (nullish (first_choice_text data) \<and> nullish (output_field data) \<longrightarrow>
      completion_text h data = Inr (JSON_stringify h data))
 \<and> completion_text h
      (JObject [(''choices'', JArray [JObject [(''message'', JObject [(''content'', JString Z)])]])]) =
    Inr (JSON_stringify h
      (JObject [(''choices'', JArray [JObject [(''message'', JObject [(''content'', JString Z)])]])]))"
proof -
  have n: "\<And>a b. nullish a \<Longrightarrow> nullish_or a b = b"
    subgoal for a b by (cases a rule: nullish.cases) simp_all
    done
  have s: "\<And>a b. a \<noteq> JNull \<Longrightarrow> nullish_or (Some a) b = a"
    subgoal for a b by (cases a) simp_all
    done
  show ?thesis
    by (auto simp: completion_text_def text_of_def n s)
       (simp_all add: first_choice_text_def output_field_def)
qed

theorem completion_text_priority_witness:
  \<open>completion_text echo_host
      (JObject [(''output'', JString ''Y''),
                (''choices'', JArray [JObject [(''text'', JString ''X'')]])]) = Inr ''X''
 \<and> completion_text echo_host
      (JObject [(''choices'', JArray [JObject [(''text'', JNull),
                   (''message'', JObject [(''content'', JString ''Z'')])]]),
                (''output'', JString ''Y'')]) = Inr ''Y''
 \<and> completion_text echo_host (chat_body ''Z'') =
     Inr ''{"choices":[{"message":{"content":"Z"}}]}''\<close>
proof -
  let ?d1 = "JObject [(''output'', JString ''Y''),
                (''choices'', JArray [JObject [(''text'', JString ''X'')]])] :: nat json"
  let ?d2 = "JObject [(''choices'', JArray [JObject [(''text'', JNull),
                   (''message'', JObject [(''content'', JString ''Z'')])]]),
                (''output'', JString ''Y'')] :: nat json"
  have a: "first_choice_text ?d1 = Some (JString ''X'')"
    by (simp add: first_choice_text_def)
  have b: "nullish (first_choice_text ?d2)" "output_field ?d2 = Some (JString ''Y'')"
    by (simp_all add: first_choice_text_def output_field_def)
  have c: "nullish (first_choice_text (chat_body ''Z'' :: nat json))"
      "nullish (output_field (chat_body ''Z'' :: nat json))"
    by (simp_all add: chat_body_fields)
  from completion_text_priority [of ?d1 "JString ''X''" echo_host "JNull" "[]"] a
  have r1: "completion_text echo_host ?d1 = Inr ''X''" by simp
  from completion_text_priority [of ?d2 "JNull" echo_host "JString ''Y''" "[]"] b
  have r2: "completion_text echo_host ?d2 = Inr ''Y''" by simp
  from completion_text_priority [of "chat_body ''Z''" "JNull" echo_host "JNull" "[]"] c
  have r3: "completion_text echo_host (chat_body ''Z'') =
      Inr (JSON_stringify echo_host (chat_body ''Z''))"
    by simp
  from r1 r2 r3 show ?thesis by (simp add: stringify_chat_body)
qed

text \<open>
  C6.  The code at a recognized utterance, beside the same text typed and submitted: the
  voice path appends the user message and sends no request (the \<open>handleUserSubmit\<close>
  it calls reads the empty \<open>userInput\<close> of its closure and returns), while the typed
  path sends the evaluation request and appends the evaluation.
\<close>

theorem voice_path_makes_no_call:
  "trace (step echo_host (initial echo_host) (VoiceResult ''hello'')) = []
 \<and> map m_text (messages (step echo_host (initial echo_host) (VoiceResult ''hello''))) =
     [SYSTEM_TEXT echo_host, ''hello'']
 \<and> trace (run echo_host (initial echo_host) [SetUserInput ''hello'', Submit]) =
     [Fetch (mk_request echo_host (render ((initial echo_host)\<lparr>userInput := ''hello''\<rparr>))
        (evalPrompt (messages (initial echo_host)) ''hello'') 0 250),
      Speak ''X'' False]
 \<and> map m_text (messages (run echo_host (initial echo_host) [SetUserInput ''hello'', Submit])) =
     [SYSTEM_TEXT echo_host, ''hello'', ''EVALUATION:\<newline>X'']"
proof -
  have t: "trim ''hello'' = ''hello''" by (simp add: trim_def is_ws_def)
  have v: "step echo_host (initial echo_host) (VoiceResult ''hello'') =
      append_new echo_host ''u'' User ''hello'' ((initial echo_host)\<lparr>userInput := []\<rparr>)"
    by (rule voice_only_appends)
  have s: "run echo_host (initial echo_host) [SetUserInput ''hello'', Submit] =
      handleUserSubmit echo_host (render ((initial echo_host)\<lparr>userInput := ''hello''\<rparr>))
        ((initial echo_host)\<lparr>userInput := ''hello''\<rparr>)"
    by (simp add: run_def)
  have c: "c_userInput (render ((initial echo_host)\<lparr>userInput := ''hello''\<rparr>)) = ''hello''"
      "c_messages (render ((initial echo_host)\<lparr>userInput := ''hello''\<rparr>)) = messages (initial echo_host)"
    by (simp_all add: render_def)
  show ?thesis
    unfolding v s
    by (simp add: handleUserSubmit_def c t Let_def callGroq_echo speakText_def)
       (simp add: initial_def)
qed

text \<open>
  C7, as stated, fails: after Clear Conversation and one more operation the transcript is
  non-empty and its first message is not a system message.
\<close>

theorem first_message_after_clear_counterexample:
  "messages (run keyless_host (initial keyless_host) [Clear, AskNext]) \<noteq> [] \<and>
   m_role (hd (messages (run keyless_host (initial keyless_host) [Clear, AskNext]))) \<noteq> System"
  by (simp add: run_def initial_def clearConversation_def handleAskNext_def render_def
      callGroq_def effectiveApiKey_def keyless_host_def catch_error_def)

text \<open>
  C7, amended.  In every state reached from the initial one by operations other than
  Clear Conversation the transcript is non-empty and its first message is the initial
  system message: no such operation removes it.
\<close>

theorem first_message_system_until_clear:
  assumes "Clear \<notin> set ops"
  shows "messages (run h (initial h) ops) \<noteq> []
       \<and> hd (messages (run h (initial h) ops)) = hd (messages (initial h))
       \<and> m_role (hd (messages (run h (initial h) ops))) = System"
proof -
  from assms have "prefix (messages (initial h)) (messages (run h (initial h) ops))"
    by (rule run_prefix)
  then obtain ms where "messages (run h (initial h) ops) = messages (initial h) @ ms"
    by (auto simp: prefix_def)
  then show ?thesis by (simp add: initial_def)
qed

theorem first_message_system_until_clear_witness:
  "Clear \<notin> set [SetCandidateProfile ''backend engineer, 5 years'', StartInterview, AskNext,
                  VoiceResult ''hello'', SetUserInput ''Redis'', Submit]
 \<and> messages (run echo_host (initial echo_host)
      [SetCandidateProfile ''backend engineer, 5 years'', StartInterview, AskNext,
       VoiceResult ''hello'', SetUserInput ''Redis'', Submit]) \<noteq> []
 \<and> m_role (hd (messages (run echo_host (initial echo_host)
      [SetCandidateProfile ''backend engineer, 5 years'', StartInterview, AskNext,
       VoiceResult ''hello'', SetUserInput ''Redis'', Submit]))) = System
 \<and> m_id (hd (messages (run echo_host (initial echo_host)
      [SetCandidateProfile ''backend engineer, 5 years'', StartInterview, AskNext,
       VoiceResult ''hello'', SetUserInput ''Redis'', Submit]))) = uid echo_host ''sys'' 0"
proof -
  have n: "Clear \<notin> set [SetCandidateProfile ''backend engineer, 5 years'', StartInterview, AskNext,
                  VoiceResult ''hello'', SetUserInput ''Redis'', Submit]"
    by simp
  from first_message_system_until_clear [OF n, of echo_host] n show ?thesis
    by (simp add: initial_def)
qed

text \<open>
  C8.  In every sequence of operations, from any state, a step that is not Clear
  Conversation keeps the transcript before it as a prefix of the transcript after it (so
  the length does not decrease), and Clear Conversation leaves the empty transcript.
\<close>

theorem transcript_append_only:
  assumes "i < length ops"
  shows "(ops ! i \<noteq> Clear \<longrightarrow>
            prefix (messages (run h w (take i ops))) (messages (run h w (take (Suc i) ops)))
          \<and> length (messages (run h w (take i ops))) \<le> length (messages (run h w (take (Suc i) ops))))
       \<and> (ops ! i = Clear \<longrightarrow> messages (run h w (take (Suc i) ops)) = [])"
proof -
  from assms have s: "run h w (take (Suc i) ops) = step h (run h w (take i ops)) (ops ! i)"
    by (simp add: take_Suc_conv_app_nth run_snoc)
  show ?thesis
    unfolding s
    by (auto simp: clearConversation_def dest: step_prefix[of _ "run h w (take i ops)" h] prefix_length_le)
qed

theorem transcript_append_only_witness:
  "(0::nat) < length [AskNext, Clear, Submit]
 \<and> [AskNext, Clear, Submit] ! 0 \<noteq> Clear
 \<and> prefix (messages (run keyless_host (demo_world keyless_host) (take 0 [AskNext, Clear, Submit])))
      (messages (run keyless_host (demo_world keyless_host) (take (Suc 0) [AskNext, Clear, Submit])))
 \<and> (1::nat) < length [AskNext, Clear, Submit]
 \<and> [AskNext, Clear, Submit] ! 1 = Clear
 \<and> messages (run keyless_host (demo_world keyless_host) (take (Suc 1) [AskNext, Clear, Submit])) = []"
proof -
  have a: "(0::nat) < length [AskNext, Clear, Submit]" and b: "(1::nat) < length [AskNext, Clear, Submit]"
    by simp_all
  from transcript_append_only [OF a, of keyless_host "demo_world keyless_host"]
       transcript_append_only [OF b, of keyless_host "demo_world keyless_host"]
  show ?thesis by simp
qed

text \<open>
  C9.  When the input the running closure reads is blank after trimming,
  \<open>handleUserSubmit\<close> returns the state it was given: transcript, input field,
  thinking flag, trace of host effects and everything else are unchanged.
\<close>

theorem blank_submit_noop:
  "trim (c_userInput c) = [] \<Longrightarrow> handleUserSubmit h c w = w"
  by (simp add: handleUserSubmit_def)

theorem blank_submit_noop_witness:
  "trim (c_userInput (render ((demo_world echo_host)\<lparr>userInput := [CHR '' '', CHR 0x09, CHR 0x0A]\<rparr>))) = []
 \<and> handleUserSubmit echo_host (render ((demo_world echo_host)\<lparr>userInput := [CHR '' '', CHR 0x09, CHR 0x0A]\<rparr>))
      ((demo_world echo_host)\<lparr>userInput := [CHR '' '', CHR 0x09, CHR 0x0A]\<rparr>) =
    (demo_world echo_host)\<lparr>userInput := [CHR '' '', CHR 0x09, CHR 0x0A]\<rparr>"
proof -
  have b: "trim (c_userInput (render ((demo_world echo_host)\<lparr>userInput := [CHR '' '', CHR 0x09, CHR 0x0A]\<rparr>))) = []"
    by (simp add: render_def trim_def is_ws_def)
  from blank_submit_noop [OF b] b show ?thesis by simp
qed

text \<open>
  C10.  In every state, also one with \<open>isThinking\<close> set, Clear Conversation leaves
  the empty transcript, with no system message put back, and every other component of the
  state as it was.
\<close>

theorem clear_frame:
  "messages (step h w Clear) = []
 \<and> candidateProfile (step h w Clear) = candidateProfile w
 \<and> userInput (step h w Clear) = userInput w
 \<and> isThinking (step h w Clear) = isThinking w
 \<and> devApiKey (step h w Clear) = devApiKey w
 \<and> diagnostics (step h w Clear) = diagnostics w
 \<and> lastTestResponse (step h w Clear) = lastTestResponse w
 \<and> trace (step h w Clear) = trace w
 \<and> draws (step h w Clear) = draws w"
  by (simp add: clearConversation_def)

end
